theory Spec2Isabelle
  imports Main
begin

section \<open>JavaScript values, errors and deferred values\<close>

text \<open>
  The repository is a Pulumi program in TypeScript: \<open>Function.ts\<close> (the class
  \<open>Function\<close>, which resolves bref layer names and declares one AWS Lambda) and the
  stack program \<open>index.ts\<close>, which reads the feature flags and declares the network,
  the database, the role, the environment and the three compute units.

  A thrown exception is a value of type \<open>error\<close>, one constructor per class of
  exception, with its message; a computation that may throw returns \<open>error + 'a\<close> with
  \<open>Inl\<close> for the exception.
\<close>

datatype error = Error string | TypeError string | ReferenceError string | SyntaxError string

text \<open>The JavaScript values that \<open>index.ts\<close> puts in environments and credentials.\<close>

datatype jsval = Undefined | Str string | Num int

text \<open>
  A \<open>pulumi.Output<T>\<close> is a value known only once the provider has created the
  resource. It is modelled by its settled state: \<open>Inr v\<close> when it resolves to \<open>v\<close>,
  \<open>Inl e\<close> when its resolution, or a callback it runs, fails with \<open>e\<close>.
\<close>

type_synonym 'a Output = "error + 'a"

text \<open>
  A \<open>pulumi.Input<T>\<close>, as the values of an environment mapping are: a plain value, or
  an Output that resolves to one.
\<close>

datatype Input = Plain jsval | Deferred "jsval Output"

definition apply_Output :: "'a Output \<Rightarrow> ('a \<Rightarrow> error + 'b) \<Rightarrow> 'b Output" where
  \<comment> \<open>\<open>o.apply(f)\<close>: runs \<open>f\<close> on the resolved value; a failed input or a throwing
      (or rejecting) \<open>f\<close> gives a failed Output.\<close>
  "apply_Output out f = (case out of Inl e \<Rightarrow> Inl e | Inr v \<Rightarrow> f v)"

definition all_Output :: "'a Output \<Rightarrow> 'b Output \<Rightarrow> ('a \<times> 'b) Output" where
  \<comment> \<open>\<open>pulumi.all([a, b])\<close>: resolves once both have resolved.\<close>
  "all_Output a b =
     (case a of Inl e \<Rightarrow> Inl e
      | Inr x \<Rightarrow> (case b of Inl e \<Rightarrow> Inl e | Inr y \<Rightarrow> Inr (x, y)))"

section \<open>Function.ts\<close>

subsection \<open>Arrays\<close>

text \<open>
  The constructor keeps the caller's \<open>layers\<close> array itself (\<open>this.layers = layers\<close>)
  and pushes onto it while it iterates over the caller's \<open>brefLayers\<close> array, so it
  matters whether the two are one array. Arrays therefore live in a store: a reference
  is an address, \<open>arrays h r\<close> is the content of the array at \<open>r\<close>, and the addresses
  below \<open>next_ref h\<close> are the allocated ones.

  An element of such an array is a string, or, once the loop has pushed it, a value read
  from the registry object: \<open>ObjectPrototypeMember k\<close> is the value of the property \<open>k\<close>
  that every object literal inherits from \<open>Object.prototype\<close> (a built-in function, or
  the prototype itself for \<open>__proto__\<close>), and \<open>UndefinedElement\<close> is \<open>undefined\<close>.
\<close>

datatype element = Text string | ObjectPrototypeMember string | UndefinedElement

type_synonym ref = nat

record heap =
  arrays :: "ref \<Rightarrow> element list"
  next_ref :: ref

definition new_array :: "heap \<Rightarrow> ref \<times> heap" where
  \<comment> \<open>\<open>[]\<close>: a new, empty array at an address not in use.\<close>
  "new_array h =
     (next_ref h, h\<lparr> arrays := (arrays h)(next_ref h := []), next_ref := Suc (next_ref h) \<rparr>)"

definition push :: "ref \<Rightarrow> element \<Rightarrow> heap \<Rightarrow> heap" where
  \<comment> \<open>\<open>a.push(v)\<close>: in place, seen through every reference to \<open>a\<close>.\<close>
  "push r v h = h\<lparr> arrays := (arrays h)(r := arrays h r @ [v]) \<rparr>"

fun ToString :: "element \<Rightarrow> string" where
  \<comment> \<open>The string the \<open>in\<close> operator, a property read and a template literal make of a
      value: a string is itself, a built-in function prints as its native source text
      (\<open>Object.prototype.constructor\<close> is the function \<open>Object\<close>), and
      \<open>Object.prototype\<close> as \<open>[object Object]\<close>.\<close>
  "ToString (Text s) = s"
| "ToString (ObjectPrototypeMember k) =
     (if k = ''__proto__'' then ''[object Object]''
      else if k = ''constructor'' then ''function Object() { [native code] }''
      else ''function '' @ k @ ''() { [native code] }'')"
| "ToString UndefinedElement = ''undefined''"

subsection \<open>Defaults and layer identifiers\<close>

definition functionDefaults_memorySize :: int where
  "functionDefaults_memorySize = 1024"

definition functionDefaults_phpVersion :: string where
  "functionDefaults_phpVersion = ''8.2''"

definition functionDefaults_architecture :: string where
  "functionDefaults_architecture = ''x86_64''"

fun replace_dot :: "string \<Rightarrow> string" where
  \<comment> \<open>\<open>s.replace('.', '')\<close> with a string pattern: only the first \<open>.\<close> is removed.\<close>
  "replace_dot [] = []"
| "replace_dot (c # cs) = (if c = CHR ''.'' then cs else c # replace_dot cs)"

definition phpLayer :: "string \<Rightarrow> string" where
  "phpLayer phpVersion =
     ''arn:aws:lambda:us-east-1:534081306603:layer:php-'' @ replace_dot phpVersion @ '':68''"

definition consoleLayer :: string where
  "consoleLayer = ''arn:aws:lambda:us-east-1:534081306603:layer:console:78''"

definition fpmLayer :: "string \<Rightarrow> string" where
  "fpmLayer phpVersion =
     ''arn:aws:lambda:us-east-1:534081306603:layer:php-'' @ replace_dot phpVersion @ ''-fpm:68''"

subsection \<open>The layer registry and the \<open>in\<close> operator\<close>

text \<open>
  \<open>this.brefLayers\<close> is an object literal with the own properties \<open>php\<close>, \<open>console\<close>
  and \<open>fpm\<close>, in that order.
\<close>

definition brefLayers_object :: "string \<Rightarrow> (string \<times> string) list" where
  "brefLayers_object phpVersion =
     [(''php'', phpLayer phpVersion),
      (''console'', consoleLayer),
      (''fpm'', fpmLayer phpVersion)]"

text \<open>
  The property names of \<open>Object.prototype\<close> (ECMAScript, with Annex B), which every
  object literal inherits.
\<close>

definition Object_prototype_keys :: "string list" where
  "Object_prototype_keys =
     [''constructor'', ''__defineGetter__'', ''__defineSetter__'', ''hasOwnProperty'',
      ''__lookupGetter__'', ''__lookupSetter__'', ''isPrototypeOf'',
      ''propertyIsEnumerable'', ''toString'', ''valueOf'', ''__proto__'',
      ''toLocaleString'']"

definition js_in :: "string \<Rightarrow> (string \<times> string) list \<Rightarrow> bool" where
  \<comment> \<open>\<open>k in obj\<close> for an object literal: true for an own property and for a property
      found on the prototype chain.\<close>
  "js_in k obj \<longleftrightarrow> k \<in> set (map fst obj) \<or> k \<in> set Object_prototype_keys"

definition js_get :: "(string \<times> string) list \<Rightarrow> string \<Rightarrow> element" where
  \<comment> \<open>\<open>obj[k]\<close>: the own property, else the inherited one, else \<open>undefined\<close>.\<close>
  "js_get obj k =
     (case map_of obj k of
        Some v \<Rightarrow> Text v
      | None \<Rightarrow> if k \<in> set Object_prototype_keys then ObjectPrototypeMember k
                else UndefinedElement)"

subsection \<open>The constructor\<close>

definition ensure_layers :: "ref option \<Rightarrow> heap \<Rightarrow> ref \<times> heap" where
  \<comment> \<open>\<open>if (!this.layers) { this.layers = []; }\<close>: an array, even an empty one, is
      truthy, so only \<open>undefined\<close> is replaced.\<close>
  "ensure_layers this_layers h =
     (case this_layers of None \<Rightarrow> new_array h | Some l \<Rightarrow> (l, h))"

text \<open>
  The loop \<open>for (const layer of brefLayers)\<close>, from index \<open>i\<close> on. The iteration is
  live: each step compares the index with the current length of the array and reads the
  current element, so elements pushed during the loop are visited when \<open>this.layers\<close> is
  the array being iterated. The \<open>throw\<close> leaves the loop and the constructor; the
  pushes made before it stay.

  The loop ends for every input, since a value read from the registry is never itself a
  name the \<open>in\<close> test accepts.
\<close>

function for_of_brefLayers ::
  "string \<Rightarrow> ref \<Rightarrow> nat \<Rightarrow> ref option \<Rightarrow> heap \<Rightarrow> (error + ref option) \<times> heap"
where
  "for_of_brefLayers phpVersion brefLayers i this_layers h =
     (if i < length (arrays h brefLayers)
      then (let layer = arrays h brefLayers ! i;
                l = fst (ensure_layers this_layers h);
                h1 = snd (ensure_layers this_layers h)
            in if \<not> js_in (ToString layer) (brefLayers_object phpVersion)
               then (Inl (Error (''Layer '' @ ToString layer @ '' not found in brefLayers'')), h1)
               else for_of_brefLayers phpVersion brefLayers (Suc i) (Some l)
                      (push l (js_get (brefLayers_object phpVersion) (ToString layer)) h1))
      else (Inr this_layers, h))"
  by pat_completeness auto

termination
proof (relation "measure (\<lambda>(pv, b, i, ls, h).
         length (takeWhile (\<lambda>v. js_in (ToString v) (brefLayers_object pv))
                   (drop i (arrays h b))))",
       goal_cases)
  case 1
  show ?case by simp
next
  case (2 pv b i ls h layer l h1)
  let ?P = "\<lambda>v. js_in (ToString v) (brefLayers_object pv)"
  let ?xs = "arrays h b"
  let ?v = "js_get (brefLayers_object pv) (ToString layer)"
  have i: "i < length ?xs" and ok: "?P (?xs ! i)"
    using 2 by simp_all
  have "js_in k (brefLayers_object pv) \<Longrightarrow>
        \<not> js_in (ToString (js_get (brefLayers_object pv) k)) (brefLayers_object pv)" for k
    by (auto simp: js_in_def js_get_def brefLayers_object_def Object_prototype_keys_def
          phpLayer_def consoleLayer_def fpmLayer_def)
  then have nv: "\<not> ?P ?v"
    using ok 2 by simp
  have snoc: "takeWhile ?P (ys @ [?v]) = takeWhile ?P ys" for ys
    using nv by (induction ys) auto
  have old: "length (takeWhile ?P (drop i ?xs)) =
             Suc (length (takeWhile ?P (drop (Suc i) ?xs)))"
    using i ok by (simp add: Cons_nth_drop_Suc [symmetric])
  have cases: "arrays (push l ?v h1) b = ?xs \<or> arrays (push l ?v h1) b = ?xs @ [?v] \<or>
               arrays (push l ?v h1) b = [?v]"
    using 2 by (auto simp: push_def ensure_layers_def new_array_def split: option.splits)
  have "length (takeWhile ?P (drop (Suc i) (arrays (push l ?v h1) b))) <
        length (takeWhile ?P (drop i ?xs))"
    using cases
  proof (elim disjE)
    assume "arrays (push l ?v h1) b = ?xs"
    then show ?thesis using old by simp
  next
    assume "arrays (push l ?v h1) b = ?xs @ [?v]"
    then show ?thesis using old i by (simp add: snoc)
  next
    assume "arrays (push l ?v h1) b = [?v]"
    then show ?thesis using old by simp
  qed
  then show ?case by simp
qed

declare for_of_brefLayers.simps [simp del]

datatype Runtime = CustomAL2

text \<open>The arguments of \<open>new aws.lambda.Function(name, {...})\<close>.\<close>

record lambda_Function =
  lambda_name :: string
  lambda_code :: string
  lambda_role :: "string Output"
  lambda_handler :: string
  lambda_runtime :: Runtime
  lambda_architectures :: "string list"
  lambda_environment :: "(string \<rightharpoonup> Input) option"
  lambda_layers :: "element list"
  lambda_timeout :: int
  lambda_memorySize :: int

text \<open>
  The fields of a \<open>Function\<close> instance once the constructor has returned;
  \<open>this.layers\<close> is a reference, the lambda's \<open>layers\<close> a copy of its content.
\<close>

record Function =
  this_name :: string
  this_roleArn :: "string Output"
  this_handler :: string
  this_environment :: "(string \<rightharpoonup> Input) option"
  this_layers :: "ref option"
  this_timeout :: int
  this_memorySize :: int
  this_code :: string
  this_lambda :: lambda_Function
  this_brefLayers :: "(string \<times> string) list"

definition or_default :: "'a option \<Rightarrow> 'a \<Rightarrow> 'a" where
  \<comment> \<open>A default parameter value: used when the argument is \<open>undefined\<close>.\<close>
  "or_default arg d = (case arg of None \<Rightarrow> d | Some v \<Rightarrow> v)"

text \<open>
  The constructor takes the store and returns the store it leaves, with the instance or
  the exception. \<open>brefLayers\<close> and \<open>layers\<close> are references to the caller's arrays, or
  \<open>undefined\<close>; the default \<open>brefLayers = []\<close> is a new array.
\<close>

definition Function_constructor ::
  "string \<Rightarrow> string \<Rightarrow> string Output \<Rightarrow> string \<Rightarrow> (string \<rightharpoonup> Input) option \<Rightarrow>
   string option \<Rightarrow> ref option \<Rightarrow> ref option \<Rightarrow> int option \<Rightarrow> int option \<Rightarrow> heap \<Rightarrow>
   (error + Function) \<times> heap"
where
  "Function_constructor name code roleArn handler environment phpVersion_arg brefLayers_arg
     layers timeout_arg memorySize_arg h =
     (let phpVersion = or_default phpVersion_arg functionDefaults_phpVersion;
          brefLayers = (case brefLayers_arg of None \<Rightarrow> fst (new_array h) | Some b \<Rightarrow> b);
          h0 = (case brefLayers_arg of None \<Rightarrow> snd (new_array h) | Some b \<Rightarrow> h);
          timeout = or_default timeout_arg 28;
          memorySize = or_default memorySize_arg functionDefaults_memorySize;
          architecture = functionDefaults_architecture;
          looped = for_of_brefLayers phpVersion brefLayers 0 layers h0;
          h1 = snd looped
      in case fst looped of
           Inl e \<Rightarrow> (Inl e, h1)
         | Inr ls \<Rightarrow>
             (Inr \<lparr> this_name = name,
                    this_roleArn = roleArn,
                    this_handler = handler,
                    this_environment = environment,
                    this_layers = ls,
                    this_timeout = timeout,
                    this_memorySize = memorySize,
                    this_code = code,
                    this_lambda =
                      \<lparr> lambda_name = name,
                        lambda_code = code,
                        lambda_role = roleArn,
                        lambda_handler = handler,
                        lambda_runtime = CustomAL2,
                        lambda_architectures = [architecture],
                        lambda_environment = environment,
                        lambda_layers = (case ls of None \<Rightarrow> [] | Some l \<Rightarrow> arrays h1 l),
                        lambda_timeout = timeout,
                        lambda_memorySize = memorySize \<rparr>,
                    this_brefLayers = brefLayers_object phpVersion \<rparr>, h1))"

section \<open>index.ts\<close>

subsection \<open>Configuration and provider results\<close>

text \<open>
  \<open>config.getBoolean(k)\<close> is \<open>undefined\<close> (\<open>None\<close>) when the option is not set, and
  \<open>config.get(k)\<close> likewise.
\<close>

record Config =
  useMySQL :: "bool option"
  useVPC :: "bool option"
  useOctane :: "bool option"
  useApiWarmer :: "bool option"
  useArtisanScheduler :: "bool option"
  apiWarmRate :: "string option"
  artisanScheduleRate :: "string option"

definition truthy :: "bool option \<Rightarrow> bool" where
  \<comment> \<open>The truthiness of \<open>boolean | undefined\<close>.\<close>
  "truthy b \<longleftrightarrow> b = Some True"

record GetSecretVersionResult =
  secretString :: string

text \<open>
  What \<open>JSON.parse\<close> returns, as far as reading a property of it goes: reading a
  property of \<open>null\<close> throws a \<open>TypeError\<close>, reading one of any other value gives the
  member or \<open>undefined\<close>.
\<close>

datatype json = JsonNull | JsonValue "string \<Rightarrow> jsval"

definition json_member :: "json \<Rightarrow> string \<Rightarrow> error + jsval" where
  "json_member j k =
     (case j of
        JsonNull \<Rightarrow>
          Inl (TypeError (''Cannot read properties of null (reading '' @ [CHR 0x27] @ k @
                          [CHR 0x27] @ '')''))
      | JsonValue members \<Rightarrow> Inr (members k))"

text \<open>
  The values that come from outside the program: the Outputs of the declared resources,
  the secret store lookup and \<open>JSON.parse\<close>. The classes \<open>SimpleVpc\<close>,
  \<open>AuroraSecurityGroup\<close>, \<open>AuroraServerless\<close>, \<open>LambdaRole\<close>, \<open>WebApp\<close>,
  \<open>ConsoleApp\<close> and \<open>SqsWorker\<close> are imported by \<open>index.ts\<close>; an instance is the
  record of the constructor call that made it, and the Outputs it exposes are fields of
  \<open>Provider\<close>.
\<close>

record Provider =
  bucket_bucket :: "string Output"
  vpc_publicSubnetIds :: "string list Output"
  vpc_vpcId :: "string Output"
  securityGroup_id :: "string Output"
  auroraCluster_endpoint :: "string Output"
  auroraCluster_secretArn :: "string Output"
  auroraCluster_id :: "string Output"
  getSecretVersion :: "string \<Rightarrow> error + GetSecretVersionResult"
  JSON_parse :: "string \<Rightarrow> error + json"

datatype SimpleVpc = SimpleVpc string bool bool bool int string

datatype AuroraSecurityGroup = AuroraSecurityGroup string SimpleVpc

datatype AuroraServerless = AuroraServerless string SimpleVpc AuroraSecurityGroup

datatype Bucket = Bucket string

datatype Policy = S3BucketPolicy Bucket | VpcPolicy

record LambdaRole =
  role_name :: string
  role_policies :: "(string \<times> Policy) list"

record VpcConfig =
  subnetIds :: "string list"
  securityGroupIds :: "string list"

record Credentials =
  username :: jsval
  password :: jsval

text \<open>The three compute units, each the record of its constructor's arguments.\<close>

datatype WebApp =
  WebApp (web_name: string) (web_code: string) (web_role: LambdaRole)
    (web_environment: "string \<rightharpoonup> Input") (web_useOctane: "bool option")
    (web_subnetIds: "string list") (web_securityGroupIds: "string list")

datatype ConsoleApp =
  ConsoleApp (console_name: string) (console_code: string) (console_role: LambdaRole)
    (console_environment: "string \<rightharpoonup> Input")
    (console_subnetIds: "string list") (console_securityGroupIds: "string list")

datatype SqsWorker =
  SqsWorker (worker_name: string) (worker_code: string) (worker_role: LambdaRole)
    (worker_environment: "string \<rightharpoonup> Input")
    (worker_subnetIds: "string list") (worker_securityGroupIds: "string list")

subsection \<open>Network and database\<close>

definition vpc :: "Config \<Rightarrow> SimpleVpc option" where
  "vpc config =
     (if truthy (useMySQL config) \<or> truthy (useVPC config)
      then Some (SimpleVpc ''lambda-test-vpc'' True True True 2 ''10.0.0.0/16'')
      else None)"

text \<open>
  The block guarded by \<open>config.getBoolean("useMySQL") && vpc\<close> assigns
  \<open>securityGroup\<close>, \<open>lambdaVpcConfig\<close>, \<open>auroraCluster\<close> and \<open>credentials\<close>; each keeps
  its initial value when the guard is false.
\<close>

definition securityGroup :: "Config \<Rightarrow> AuroraSecurityGroup option" where
  "securityGroup config =
     (if truthy (useMySQL config)
      then (case vpc config of
              Some v \<Rightarrow> Some (AuroraSecurityGroup ''lambda-test-aurora-security-group'' v)
            | None \<Rightarrow> None)
      else None)"

definition lambdaVpcConfig :: "Config \<Rightarrow> Provider \<Rightarrow> VpcConfig Output" where
  "lambdaVpcConfig config provider =
     (if truthy (useMySQL config) \<and> vpc config \<noteq> None
      then apply_Output (all_Output (vpc_publicSubnetIds provider) (securityGroup_id provider))
             (\<lambda>(ids, securityGroupId).
                Inr \<lparr> subnetIds = ids, securityGroupIds = [securityGroupId] \<rparr>)
      else Inr \<lparr> subnetIds = [], securityGroupIds = [] \<rparr>)"

definition auroraCluster :: "Config \<Rightarrow> AuroraServerless option" where
  "auroraCluster config =
     (if truthy (useMySQL config)
      then (case vpc config of
              Some v \<Rightarrow>
                (case securityGroup config of
                   Some sg \<Rightarrow> Some (AuroraServerless ''laravel-test-aurora'' v sg)
                 | None \<Rightarrow> None)
            | None \<Rightarrow> None)
      else None)"

definition auroraSecret :: "Provider \<Rightarrow> GetSecretVersionResult Output" where
  "auroraSecret provider =
     apply_Output (auroraCluster_secretArn provider)
       (\<lambda>secretArn. getSecretVersion provider secretArn)"

definition extract_credentials :: "Provider \<Rightarrow> GetSecretVersionResult \<Rightarrow> error + Credentials" where
  \<comment> \<open>The callback of \<open>auroraSecret.apply\<close>; \<open>!s\<close> holds of a string exactly when it is
      empty.\<close>
  "extract_credentials provider secret =
     (if secretString secret = []
      then Inl (Error ''Secret string is empty'')
      else (case JSON_parse provider (secretString secret) of
              Inl e \<Rightarrow> Inl e
            | Inr secretJson \<Rightarrow>
                (case json_member secretJson ''username'' of
                   Inl e \<Rightarrow> Inl e
                 | Inr u \<Rightarrow>
                     (case json_member secretJson ''password'' of
                        Inl e \<Rightarrow> Inl e
                      | Inr p \<Rightarrow> Inr \<lparr> username = u, password = p \<rparr>))))"

definition credentials :: "Config \<Rightarrow> Provider \<Rightarrow> Credentials Output option" where
  "credentials config provider =
     (if truthy (useMySQL config) \<and> vpc config \<noteq> None
      then Some (apply_Output (auroraSecret provider) (extract_credentials provider))
      else None)"

subsection \<open>Role\<close>

definition bucket :: Bucket where
  "bucket = Bucket ''bref-example-bucket''"

definition new_LambdaRole :: "string \<Rightarrow> LambdaRole" where
  "new_LambdaRole n = \<lparr> role_name = n, role_policies = [] \<rparr>"

text \<open>
  Modelled from the spec: \<open>LambdaRole.addPolicy\<close>, of \<open>./constructs\<close>, is not among the
  source files. The role accumulates named policy attachments in order, and attaching a
  name that is already attached does not duplicate it.
\<close>

definition addPolicy :: "string \<Rightarrow> Policy \<Rightarrow> LambdaRole \<Rightarrow> LambdaRole" where
  "addPolicy n p r =
     (if n \<in> set (map fst (role_policies r)) then r
      else r\<lparr> role_policies := role_policies r @ [(n, p)] \<rparr>)"

definition lambdaRole :: LambdaRole where
  "lambdaRole =
     addPolicy ''vpc'' VpcPolicy
       (addPolicy ''s3'' (S3BucketPolicy bucket) (new_LambdaRole ''lambdaRole''))"

subsection \<open>Environment and compute units\<close>

definition output_string :: "string Output \<Rightarrow> Input" where
  \<comment> \<open>An \<open>Output<string>\<close> used as an environment value.\<close>
  "output_string out = Deferred (apply_Output out (\<lambda>s. Inr (Str s)))"

definition environment :: "Config \<Rightarrow> Provider \<Rightarrow> (string \<rightharpoonup> Input)" where
  "environment config provider =
     [''FILESYSTEM_DISK'' \<mapsto> Plain (Str ''s3''),
      ''AWS_BUCKET'' \<mapsto> output_string (bucket_bucket provider),
      ''DB_DATABASE'' \<mapsto> Plain (Str ''laravelTest''),
      ''DB_CONNECTION'' \<mapsto> Plain (Str ''mysql''),
      ''DB_HOST'' \<mapsto>
        (case auroraCluster config of
           Some c \<Rightarrow> output_string (auroraCluster_endpoint provider)
         | None \<Rightarrow> Plain (Str '''')),
      ''DB_PORT'' \<mapsto> Plain (Str ''3306''),
      ''DB_USERNAME'' \<mapsto>
        (case credentials config provider of
           Some c \<Rightarrow> Deferred (apply_Output c (\<lambda>cr. Inr (username cr)))
         | None \<Rightarrow> Plain (Str '''')),
      ''DB_PASSWORD'' \<mapsto>
        (case credentials config provider of
           Some c \<Rightarrow> Deferred (apply_Output c (\<lambda>cr. Inr (password cr)))
         | None \<Rightarrow> Plain (Str ''''))]"

definition spread :: "('k \<rightharpoonup> 'v) \<Rightarrow> ('k \<rightharpoonup> 'v) \<Rightarrow> ('k \<rightharpoonup> 'v)" where
  \<comment> \<open>\<open>{...first, ...spreadArg}\<close>: the properties of the literal so far, then every
      property of the spread object, which replaces an earlier one of the same key.\<close>
  "spread first spreadArg = first ++ spreadArg"

definition webApp_environment :: "(string \<rightharpoonup> Input) \<Rightarrow> (string \<rightharpoonup> Input)" where
  \<comment> \<open>\<open>{BREF_LOOP_MAX: 250, ...environment}\<close>\<close>
  "webApp_environment env = spread [''BREF_LOOP_MAX'' \<mapsto> Plain (Num 250)] env"

definition webApp :: "Config \<Rightarrow> Provider \<Rightarrow> WebApp Output" where
  "webApp config provider =
     apply_Output (lambdaVpcConfig config provider)
       (\<lambda>vpcConfig.
          Inr (WebApp ''laravel-test'' ''../laravel'' lambdaRole
                 (webApp_environment (environment config provider))
                 (useOctane config)
                 (subnetIds vpcConfig)
                 (securityGroupIds vpcConfig)))"

definition consoleApp :: "Config \<Rightarrow> Provider \<Rightarrow> ConsoleApp Output" where
  "consoleApp config provider =
     apply_Output (lambdaVpcConfig config provider)
       (\<lambda>vpcConfig.
          Inr (ConsoleApp ''laravel-test-artisan'' ''../laravel'' lambdaRole
                 (environment config provider)
                 (subnetIds vpcConfig)
                 (securityGroupIds vpcConfig)))"

definition sqsWorker :: "Config \<Rightarrow> Provider \<Rightarrow> SqsWorker Output" where
  "sqsWorker config provider =
     apply_Output (lambdaVpcConfig config provider)
       (\<lambda>vpcConfig.
          Inr (SqsWorker ''laravel-test-worker'' ''../laravel'' lambdaRole
                 (environment config provider)
                 (subnetIds vpcConfig)
                 (securityGroupIds vpcConfig)))"

subsection \<open>Scheduled triggers\<close>

text \<open>
  Both trigger blocks name their resources with \<open>stackName\<close>, an identifier that the
  module reads and never declares: evaluating it throws a \<open>ReferenceError\<close>. It is the
  first thing either block evaluates after reading its rate, in the name of the event
  rule, so a block that is entered throws before it declares anything, and the module
  stops there.
\<close>

definition stackName :: "error + string" where
  "stackName = Inl (ReferenceError ''stackName is not defined'')"

definition apiWarmer :: "Config \<Rightarrow> error + unit" where
  \<comment> \<open>\<open>if (config.getBoolean("useApiWarmer")) { ... }\<close>\<close>
  "apiWarmer config =
     (if truthy (useApiWarmer config)
      then (case stackName of Inl e \<Rightarrow> Inl e | Inr name \<Rightarrow> Inr ())
      else Inr ())"

definition artisanScheduler :: "Config \<Rightarrow> error + unit" where
  \<comment> \<open>\<open>if (config.getBoolean("useArtisanScheduler")) { ... }\<close>\<close>
  "artisanScheduler config =
     (if truthy (useArtisanScheduler config)
      then (case stackName of Inl e \<Rightarrow> Inl e | Inr name \<Rightarrow> Inr ())
      else Inr ())"

definition scheduled_triggers :: "Config \<Rightarrow> error + unit" where
  \<comment> \<open>The two blocks in sequence: the statements between the compute units and the
      exports.\<close>
  "scheduled_triggers config =
     (case apiWarmer config of Inl e \<Rightarrow> Inl e | Inr u \<Rightarrow> artisanScheduler config)"

subsection \<open>Exports\<close>

text \<open>
  The exports are the last statements of the module: each is evaluated only if the
  trigger blocks before it have not thrown, and is absent otherwise.
\<close>

definition vpcId :: "Config \<Rightarrow> Provider \<Rightarrow> error + Input" where
  \<comment> \<open>\<open>vpc?.vpc.vpcId ?? ""\<close>\<close>
  "vpcId config provider =
     (case scheduled_triggers config of
        Inl e \<Rightarrow> Inl e
      | Inr u \<Rightarrow>
          Inr (case vpc config of
                 Some v \<Rightarrow> output_string (vpc_vpcId provider)
               | None \<Rightarrow> Plain (Str '''')))"

definition auroraClusterId :: "Config \<Rightarrow> Provider \<Rightarrow> error + Input" where
  \<comment> \<open>\<open>auroraCluster?.auroraCluster.id ?? ""\<close>\<close>
  "auroraClusterId config provider =
     (case scheduled_triggers config of
        Inl e \<Rightarrow> Inl e
      | Inr u \<Rightarrow>
          Inr (case auroraCluster config of
                 Some c \<Rightarrow> output_string (auroraCluster_id provider)
               | None \<Rightarrow> Plain (Str '''')))"

definition auroraClusterEndpoint :: "Config \<Rightarrow> Provider \<Rightarrow> error + Input" where
  \<comment> \<open>\<open>auroraCluster?.endpoint ?? ""\<close>\<close>
  "auroraClusterEndpoint config provider =
     (case scheduled_triggers config of
        Inl e \<Rightarrow> Inl e
      | Inr u \<Rightarrow>
          Inr (case auroraCluster config of
                 Some c \<Rightarrow> output_string (auroraCluster_endpoint provider)
               | None \<Rightarrow> Plain (Str '''')))"

section \<open>Properties of the layer loop\<close>

lemma brefLayers_object_keys:
  "set (map fst (brefLayers_object v)) = {''php'', ''console'', ''fpm''}"
  by (auto simp: brefLayers_object_def)

lemma js_in_own: "k \<in> set (map fst (brefLayers_object v)) \<Longrightarrow> js_in k (brefLayers_object v)"
  by (simp add: js_in_def)

lemma js_get_own:
  assumes "k \<in> set (map fst (brefLayers_object v))"
  shows "js_get (brefLayers_object v) k =
     Text (if k = ''php'' then phpLayer v else if k = ''console'' then consoleLayer else fpmLayer v)"
proof -
  have "k \<in> {''php'', ''console'', ''fpm''}"
    using assms by (simp only: brefLayers_object_keys)
  then show ?thesis
    by (auto simp: js_get_def brefLayers_object_def)
qed

text \<open>The two reads the loop makes of the registry go by key, never by position.\<close>

lemma lookup_order_independent:
  assumes "distinct (map fst obj')" and "distinct (map fst obj)" and "set obj' = set obj"
  shows "js_in k obj' = js_in k obj \<and> js_get obj' k = js_get obj k"
proof -
  have "map_of obj' = map_of obj"
    using assms by (simp add: map_of_inject_set)
  moreover have "set (map fst obj') = set (map fst obj)"
    using assms(3) by simp
  ultimately show ?thesis
    by (simp add: js_in_def js_get_def)
qed

text \<open>A value read from the registry is not a name the \<open>in\<close> test accepts.\<close>

lemma pushed_value_not_in:
  "js_in k (brefLayers_object pv) \<Longrightarrow>
   \<not> js_in (ToString (js_get (brefLayers_object pv) k)) (brefLayers_object pv)"
  by (auto simp: js_in_def js_get_def brefLayers_object_def Object_prototype_keys_def
        phpLayer_def consoleLayer_def fpmLayer_def)

text \<open>
  When \<open>this.layers\<close> is not the array being iterated and every name passes the \<open>in\<close>
  test, the loop runs to the end of the names and appends one value per name.
\<close>

lemma for_of_separate_arrays:
  "ls \<noteq> Some b \<Longrightarrow> b < next_ref h \<Longrightarrow>
   \<forall>v \<in> set (drop i (arrays h b)). js_in (ToString v) (brefLayers_object pv) \<Longrightarrow>
   for_of_brefLayers pv b i ls h =
     (if i < length (arrays h b)
      then (Inr (Some (fst (ensure_layers ls h))),
            (snd (ensure_layers ls h))
              \<lparr> arrays := (arrays (snd (ensure_layers ls h)))
                   (fst (ensure_layers ls h) :=
                      arrays (snd (ensure_layers ls h)) (fst (ensure_layers ls h)) @
                      map (\<lambda>v. js_get (brefLayers_object pv) (ToString v)) (drop i (arrays h b))) \<rparr>)
      else (Inr ls, h))"
proof (induction pv b i ls h rule: for_of_brefLayers.induct)
  case (1 pv b i ls h)
  show ?case
  proof (cases "i < length (arrays h b)")
    case False
    then show ?thesis by (subst for_of_brefLayers.simps) simp
  next
    case True
    let ?l = "fst (ensure_layers ls h)"
    let ?h1 = "snd (ensure_layers ls h)"
    let ?v = "js_get (brefLayers_object pv) (ToString (arrays h b ! i))"
    let ?h2 = "push ?l ?v ?h1"
    have d: "drop i (arrays h b) = arrays h b ! i # drop (Suc i) (arrays h b)"
      using True by (simp add: Cons_nth_drop_Suc)
    have ok: "js_in (ToString (arrays h b ! i)) (brefLayers_object pv)"
      using "1.prems"(3) d by simp
    have lb: "?l \<noteq> b"
      using "1.prems"(1,2) by (auto simp: ensure_layers_def new_array_def split: option.splits)
    have same: "arrays ?h2 b = arrays h b"
      using lb "1.prems"(2)
      by (auto simp: push_def ensure_layers_def new_array_def split: option.splits)
    have nxt: "b < next_ref ?h2"
      using "1.prems"(2)
      by (auto simp: push_def ensure_layers_def new_array_def split: option.splits)
    have rest: "\<forall>v \<in> set (drop (Suc i) (arrays ?h2 b)). js_in (ToString v) (brefLayers_object pv)"
      using "1.prems"(3) d same by simp
    have IH: "for_of_brefLayers pv b (Suc i) (Some ?l) ?h2 =
      (if Suc i < length (arrays ?h2 b)
       then (Inr (Some (fst (ensure_layers (Some ?l) ?h2))),
            (snd (ensure_layers (Some ?l) ?h2))
              \<lparr> arrays := (arrays (snd (ensure_layers (Some ?l) ?h2)))
                   (fst (ensure_layers (Some ?l) ?h2) :=
                      arrays (snd (ensure_layers (Some ?l) ?h2)) (fst (ensure_layers (Some ?l) ?h2)) @
                      map (\<lambda>v. js_get (brefLayers_object pv) (ToString v))
                        (drop (Suc i) (arrays ?h2 b))) \<rparr>)
       else (Inr (Some ?l), ?h2))"
      using "1.IH" [OF True refl refl refl _ _ nxt rest] ok lb by simp
    have step: "for_of_brefLayers pv b i ls h = for_of_brefLayers pv b (Suc i) (Some ?l) ?h2"
      using True ok by (subst for_of_brefLayers.simps) (simp add: Let_def)
    show ?thesis
    proof (cases "Suc i < length (arrays h b)")
      case True
      then show ?thesis
        using step IH same \<open>i < length (arrays h b)\<close> d
        by (simp add: ensure_layers_def push_def)
    next
      case False
      then have "drop (Suc i) (arrays h b) = []" by simp
      then show ?thesis
        using step IH same \<open>i < length (arrays h b)\<close> d False
        by (simp add: ensure_layers_def push_def)
    qed
  qed
qed

text \<open>
  When \<open>this.layers\<close> is the array being iterated, the loop visits its own pushes: past
  the last of the names \<open>xs\<close> it reads the value it pushed for the first name, which
  fails the \<open>in\<close> test, and throws.
\<close>

lemma for_of_same_array:
  assumes "arrays h b = xs @ map (\<lambda>v. js_get (brefLayers_object pv) (ToString v)) (take i xs)"
    and "i \<le> length xs" and "xs \<noteq> []"
    and "\<forall>v \<in> set xs. js_in (ToString v) (brefLayers_object pv)"
  shows "fst (for_of_brefLayers pv b i (Some b) h) =
           Inl (Error (''Layer '' @ ToString (js_get (brefLayers_object pv) (ToString (hd xs))) @
                       '' not found in brefLayers''))"
  using assms
proof (induction "length xs - i" arbitrary: i h)
  case 0
  let ?g = "\<lambda>v. js_get (brefLayers_object pv) (ToString v)"
  have i: "i = length xs" using 0 by simp
  have len: "i < length (arrays h b)"
    using 0 i by (cases xs) simp_all
  have at: "arrays h b ! i = ?g (hd xs)"
    using 0 i by (cases xs) (simp_all add: nth_append)
  have "js_in (ToString (hd xs)) (brefLayers_object pv)"
    using 0 by (cases xs) simp_all
  then have "\<not> js_in (ToString (?g (hd xs))) (brefLayers_object pv)"
    by (rule pushed_value_not_in)
  then show ?case
    using len at by (subst for_of_brefLayers.simps) (simp add: Let_def ensure_layers_def)
next
  case (Suc d)
  let ?g = "\<lambda>v. js_get (brefLayers_object pv) (ToString v)"
  have i: "i < length xs" using Suc by simp
  have len: "i < length (arrays h b)" using Suc i by simp
  have at: "arrays h b ! i = xs ! i" using Suc i by (simp add: nth_append)
  have ok: "js_in (ToString (xs ! i)) (brefLayers_object pv)"
    using Suc.prems(4) i by simp
  let ?h2 = "push b (?g (xs ! i)) h"
  have step: "for_of_brefLayers pv b i (Some b) h = for_of_brefLayers pv b (Suc i) (Some b) ?h2"
    using len at ok by (subst for_of_brefLayers.simps) (simp add: Let_def ensure_layers_def)
  have arr: "arrays ?h2 b = xs @ map ?g (take (Suc i) xs)"
    using Suc.prems(1) i by (simp add: push_def take_Suc_conv_app_nth)
  have "fst (for_of_brefLayers pv b (Suc i) (Some b) ?h2) =
           Inl (Error (''Layer '' @ ToString (?g (hd xs)) @ '' not found in brefLayers''))"
    using Suc.hyps(1) [of "Suc i" ?h2] Suc.hyps(2) arr i Suc.prems(3,4) by simp
  then show ?case using step by simp
qed

subsection \<open>The constructor\<close>

lemma Function_constructor_separate_arrays:
  assumes "layers \<noteq> Some b" and "b < next_ref h"
    and "\<forall>v \<in> set (arrays h b).
           js_in (ToString v) (brefLayers_object (or_default pv functionDefaults_phpVersion))"
  shows "\<exists>f. fst (Function_constructor n c r hn e pv (Some b) layers t m h) = Inr f \<and>
             lambda_layers (this_lambda f) =
               (case layers of None \<Rightarrow> [] | Some l \<Rightarrow> arrays h l) @
               map (\<lambda>v. js_get (brefLayers_object (or_default pv functionDefaults_phpVersion))
                          (ToString v))
                 (arrays h b)"
proof -
  let ?pv = "or_default pv functionDefaults_phpVersion"
  have loop: "for_of_brefLayers ?pv b 0 layers h =
     (if 0 < length (arrays h b)
      then (Inr (Some (fst (ensure_layers layers h))),
            (snd (ensure_layers layers h))
              \<lparr> arrays := (arrays (snd (ensure_layers layers h)))
                   (fst (ensure_layers layers h) :=
                      arrays (snd (ensure_layers layers h)) (fst (ensure_layers layers h)) @
                      map (\<lambda>v. js_get (brefLayers_object ?pv) (ToString v))
                        (drop 0 (arrays h b))) \<rparr>)
      else (Inr layers, h))"
    using assms by (intro for_of_separate_arrays) simp_all
  show ?thesis
  proof (cases "arrays h b = []")
    case True
    then show ?thesis
      using loop by (cases layers) (simp_all add: Function_constructor_def Let_def)
  next
    case False
    then show ?thesis
      using loop
      by (cases layers) (simp_all add: Function_constructor_def Let_def ensure_layers_def new_array_def)
  qed
qed

lemma Function_constructor_same_array:
  assumes "arrays h b = xs" and "xs \<noteq> []"
    and "\<forall>v \<in> set xs.
           js_in (ToString v) (brefLayers_object (or_default pv functionDefaults_phpVersion))"
  shows "fst (Function_constructor n c r hn e pv (Some b) (Some b) t m h) =
           Inl (Error (''Layer '' @
                  ToString (js_get (brefLayers_object (or_default pv functionDefaults_phpVersion))
                              (ToString (xs ! 0))) @
                  '' not found in brefLayers''))"
proof -
  have "fst (for_of_brefLayers (or_default pv functionDefaults_phpVersion) b 0 (Some b) h) =
           Inl (Error (''Layer '' @
                  ToString (js_get (brefLayers_object (or_default pv functionDefaults_phpVersion))
                              (ToString (hd xs))) @
                  '' not found in brefLayers''))"
    using assms by (intro for_of_same_array) simp_all
  then show ?thesis
    using assms(2) by (simp add: Function_constructor_def Let_def hd_conv_nth)
qed

lemma Function_constructor_empty_brefLayers:
  assumes "arrays h b = []"
  shows "\<exists>f. fst (Function_constructor n c r hn e pv (Some b) layers t m h) = Inr f \<and>
             lambda_layers (this_lambda f) = (case layers of None \<Rightarrow> [] | Some l \<Rightarrow> arrays h l)"
proof -
  have "for_of_brefLayers (or_default pv functionDefaults_phpVersion) b 0 layers h = (Inr layers, h)"
    using assms by (subst for_of_brefLayers.simps) simp
  then show ?thesis
    by (cases layers) (simp_all add: Function_constructor_def Let_def)
qed

lemma Function_constructor_no_brefLayers:
  "fst (Function_constructor n c r hn e pv None layers t m h) =
     Inr \<lparr> this_name = n, this_roleArn = r, this_handler = hn, this_environment = e,
           this_layers = layers, this_timeout = or_default t 28,
           this_memorySize = or_default m functionDefaults_memorySize, this_code = c,
           this_lambda =
             \<lparr> lambda_name = n, lambda_code = c, lambda_role = r, lambda_handler = hn,
               lambda_runtime = CustomAL2, lambda_architectures = [functionDefaults_architecture],
               lambda_environment = e,
               lambda_layers = (case layers of None \<Rightarrow> [] | Some l \<Rightarrow> arrays (snd (new_array h)) l),
               lambda_timeout = or_default t 28,
               lambda_memorySize = or_default m functionDefaults_memorySize \<rparr>,
           this_brefLayers = brefLayers_object (or_default pv functionDefaults_phpVersion) \<rparr>"
proof -
  have "for_of_brefLayers (or_default pv functionDefaults_phpVersion) (fst (new_array h)) 0 layers
          (snd (new_array h)) = (Inr layers, snd (new_array h))"
    by (subst for_of_brefLayers.simps) (simp add: new_array_def)
  then show ?thesis
    by (cases layers) (simp_all add: Function_constructor_def Let_def)
qed

text \<open>
  One array passed as both \<open>brefLayers\<close> and \<open>layers\<close>: with \<open>["php"]\<close> the constructor
  pushes the identifier of \<open>php\<close> onto that array, reads it as the next name and throws;
  the caller's array keeps the push.
\<close>

lemma Function_constructor_same_array_example:
  "Function_constructor ''web'' ''../laravel'' (Inr ''arn:role'') ''public/index.php'' None None
     (Some 0) (Some 0) None None \<lparr> arrays = (\<lambda>r. [])(0 := [Text ''php'']), next_ref = 1 \<rparr> =
   (Inl (Error ''Layer arn:aws:lambda:us-east-1:534081306603:layer:php-82:68 not found in brefLayers''),
    \<lparr> arrays = (\<lambda>r. [])(0 := [Text ''php'',
         Text ''arn:aws:lambda:us-east-1:534081306603:layer:php-82:68'']), next_ref = 1 \<rparr>)"
  by (simp add: Function_constructor_def for_of_brefLayers.simps Let_def or_default_def js_in_def
        js_get_def brefLayers_object_def Object_prototype_keys_def ensure_layers_def new_array_def
        push_def phpLayer_def consoleLayer_def fpmLayer_def functionDefaults_phpVersion_def)

section \<open>Network and database\<close>

text \<open>
  C1. For every combination of the feature flags, the VPC (the network topology) is
  created if and only if \<open>useVPC\<close> or \<open>useMySQL\<close> is set; with both flags false or unset
  there is no network component.
\<close>

theorem vpc_created_iff_useVPC_or_useMySQL:
  "(vpc config \<noteq> None) = (useVPC config = Some True \<or> useMySQL config = Some True)"
  by (auto simp: vpc_def truthy_def)

theorem vpc_created_iff_witness:
  "vpc \<lparr> useMySQL = Some False, useVPC = Some True, useOctane = None, useApiWarmer = None,
         useArtisanScheduler = None, apiWarmRate = None, artisanScheduleRate = None \<rparr> \<noteq> None \<and>
   vpc \<lparr> useMySQL = Some False, useVPC = None, useOctane = None, useApiWarmer = None,
         useArtisanScheduler = None, apiWarmRate = None, artisanScheduleRate = None \<rparr> = None"
  using vpc_created_iff_useVPC_or_useMySQL
    [of "\<lparr> useMySQL = Some False, useVPC = Some True, useOctane = None, useApiWarmer = None,
          useArtisanScheduler = None, apiWarmRate = None, artisanScheduleRate = None \<rparr>"]
    vpc_created_iff_useVPC_or_useMySQL
    [of "\<lparr> useMySQL = Some False, useVPC = None, useOctane = None, useApiWarmer = None,
          useArtisanScheduler = None, apiWarmRate = None, artisanScheduleRate = None \<rparr>"]
  by simp

text \<open>
  C2. For every combination of the feature flags, the Aurora cluster, its security group
  and the credentials lookup are each created if and only if \<open>useMySQL\<close> is set and the
  VPC exists; a cluster that exists was built on the VPC and the security group of the
  stack, so no database without a network is produced.
\<close>

theorem database_created_iff_useMySQL_and_vpc:
  "(auroraCluster config \<noteq> None) = (useMySQL config = Some True \<and> vpc config \<noteq> None) \<and>
   (securityGroup config \<noteq> None) = (useMySQL config = Some True \<and> vpc config \<noteq> None) \<and>
   (credentials config provider \<noteq> None) = (useMySQL config = Some True \<and> vpc config \<noteq> None) \<and>
   (\<forall>n v sg. auroraCluster config = Some (AuroraServerless n v sg) \<longrightarrow>
      vpc config = Some v \<and> securityGroup config = Some sg)"
  by (auto simp: auroraCluster_def securityGroup_def credentials_def vpc_def truthy_def
           split: option.splits if_splits)

theorem database_created_iff_witness:
  "auroraCluster
     \<lparr> useMySQL = Some True, useVPC = Some False, useOctane = None, useApiWarmer = None,
       useArtisanScheduler = None, apiWarmRate = None, artisanScheduleRate = None \<rparr> =
     Some (AuroraServerless ''laravel-test-aurora''
             (SimpleVpc ''lambda-test-vpc'' True True True 2 ''10.0.0.0/16'')
             (AuroraSecurityGroup ''lambda-test-aurora-security-group''
                (SimpleVpc ''lambda-test-vpc'' True True True 2 ''10.0.0.0/16''))) \<and>
   vpc \<lparr> useMySQL = Some True, useVPC = Some False, useOctane = None, useApiWarmer = None,
         useArtisanScheduler = None, apiWarmRate = None, artisanScheduleRate = None \<rparr> =
     Some (SimpleVpc ''lambda-test-vpc'' True True True 2 ''10.0.0.0/16'') \<and>
   auroraCluster
     \<lparr> useMySQL = None, useVPC = Some True, useOctane = None, useApiWarmer = None,
       useArtisanScheduler = None, apiWarmRate = None, artisanScheduleRate = None \<rparr> = None"
  using database_created_iff_useMySQL_and_vpc
    [of "\<lparr> useMySQL = Some True, useVPC = Some False, useOctane = None, useApiWarmer = None,
          useArtisanScheduler = None, apiWarmRate = None, artisanScheduleRate = None \<rparr>"]
    database_created_iff_useMySQL_and_vpc
    [of "\<lparr> useMySQL = None, useVPC = Some True, useOctane = None, useApiWarmer = None,
          useArtisanScheduler = None, apiWarmRate = None, artisanScheduleRate = None \<rparr>"]
  by (simp add: auroraCluster_def securityGroup_def vpc_def truthy_def)

section \<open>Layer names\<close>

text \<open>
  C3. The claim is that the constructor fails, naming the offending name, whenever a
  requested name is not a key of the layer registry. The membership test is the \<open>in\<close>
  operator, which is also true of the names an object literal inherits: with
  \<open>brefLayers = ["toString"]\<close>, which is not one of the registry keys, and no raw
  layers, the constructor does not throw the "not found" error; it returns, and the
  lambda is declared with the inherited member as its only layer.
\<close>

theorem Function_constructor_accepts_inherited_name:
  "''toString'' \<notin> set (map fst (brefLayers_object functionDefaults_phpVersion)) \<and>
   fst (Function_constructor ''web'' ''../laravel'' (Inr ''arn:role'') ''public/index.php'' None None
     (Some 0) None None None \<lparr> arrays = (\<lambda>r. [])(0 := [Text ''toString'']), next_ref = 1 \<rparr>) \<noteq>
     Inl (Error ''Layer toString not found in brefLayers'') \<and>
   \<not> isl (fst (Function_constructor ''web'' ''../laravel'' (Inr ''arn:role'') ''public/index.php''
            None None (Some 0) None None None
            \<lparr> arrays = (\<lambda>r. [])(0 := [Text ''toString'']), next_ref = 1 \<rparr>)) \<and>
   lambda_layers (this_lambda (projr (fst (Function_constructor ''web'' ''../laravel''
     (Inr ''arn:role'') ''public/index.php'' None None (Some 0) None None None
     \<lparr> arrays = (\<lambda>r. [])(0 := [Text ''toString'']), next_ref = 1 \<rparr>)))) =
     [ObjectPrototypeMember ''toString'']"
  by (simp add: Function_constructor_def for_of_brefLayers.simps Let_def or_default_def js_in_def
        js_get_def brefLayers_object_def Object_prototype_keys_def ensure_layers_def new_array_def
        push_def)

text \<open>
  C6. For every list of requested layer names that are all keys of the registry, the
  layers of the resulting lambda are the caller's raw layers followed by one identifier
  per requested name, at the position of that name in the request: the \<open>i\<close>-th requested
  name gives the \<open>i\<close>-th resolved identifier. This holds of every call that returns, and
  the constructor does return whenever the raw layers are not the very array of the
  requested names. The loop reads the registry by key only, so every reordering of the
  registry's entries gives the same reads.
\<close>

theorem layers_preserve_requested_order:
  assumes "b < next_ref h"
    and "arrays h b = map Text names"
    and "set names \<subseteq> set (map fst (brefLayers_object (or_default pv functionDefaults_phpVersion)))"
  shows "(layers \<noteq> Some b \<longrightarrow>
            \<not> isl (fst (Function_constructor n c r hn e pv (Some b) layers t m h))) \<and>
         (\<forall>f. fst (Function_constructor n c r hn e pv (Some b) layers t m h) = Inr f \<longrightarrow>
            length (lambda_layers (this_lambda f)) =
              length (case layers of None \<Rightarrow> [] | Some l \<Rightarrow> arrays h l) + length names \<and>
            (\<forall>i < length names.
               lambda_layers (this_lambda f) !
                 (length (case layers of None \<Rightarrow> [] | Some l \<Rightarrow> arrays h l) + i) =
               Text (if names ! i = ''php''
                     then phpLayer (or_default pv functionDefaults_phpVersion)
                     else if names ! i = ''console'' then consoleLayer
                     else fpmLayer (or_default pv functionDefaults_phpVersion)))) \<and>
         (\<forall>obj'. distinct (map fst obj') \<and>
                 set obj' = set (brefLayers_object (or_default pv functionDefaults_phpVersion)) \<longrightarrow>
            (\<forall>k. js_in k obj' =
                    js_in k (brefLayers_object (or_default pv functionDefaults_phpVersion)) \<and>
                  js_get obj' k =
                    js_get (brefLayers_object (or_default pv functionDefaults_phpVersion)) k))"
proof (intro conjI)
  let ?v = "or_default pv functionDefaults_phpVersion"
  let ?obj = "brefLayers_object ?v"
  let ?raw = "case layers of None \<Rightarrow> [] | Some l \<Rightarrow> arrays h l"
  let ?arn = "\<lambda>k. Text (if k = ''php'' then phpLayer ?v
                         else if k = ''console'' then consoleLayer else fpmLayer ?v)"
  let ?F = "fst (Function_constructor n c r hn e pv (Some b) layers t m h)"
  have valid: "\<forall>v \<in> set (arrays h b). js_in (ToString v) ?obj"
    using assms(2,3) js_in_own by auto
  have "js_get ?obj k = ?arn k" if "k \<in> set names" for k
    using that assms(3) js_get_own [of k ?v] by blast
  then have "map (js_get ?obj) names = map ?arn names"
    by (intro map_cong [OF refl])
  then have resolved: "map (\<lambda>v. js_get ?obj (ToString v)) (arrays h b) = map ?arn names"
    by (simp add: assms(2) o_def)
  have separate: "\<exists>f. ?F = Inr f \<and> lambda_layers (this_lambda f) = ?raw @ map ?arn names"
    if "layers \<noteq> Some b"
    using Function_constructor_separate_arrays [OF that assms(1) valid, of n c r hn e t m] resolved
    by simp
  show "layers \<noteq> Some b \<longrightarrow> \<not> isl ?F"
    using separate by auto
  have ordered: "lambda_layers (this_lambda f) = ?raw @ map ?arn names" if f: "?F = Inr f" for f
  proof (cases "layers = Some b")
    case False
    then show ?thesis using separate f by auto
  next
    case True
    show ?thesis
    proof (cases "names = []")
      case True
      then have "arrays h b = []" using assms(2) by simp
      then show ?thesis
        using Function_constructor_empty_brefLayers [of h b n c r hn e pv layers t m] f True
        by auto
    next
      case False
      then have "arrays h b \<noteq> []" using assms(2) by simp
      then have "isl ?F"
        using Function_constructor_same_array [OF refl _ valid, of n c r hn e t m] True by simp
      then show ?thesis using f by simp
    qed
  qed
  show "\<forall>f. ?F = Inr f \<longrightarrow>
          length (lambda_layers (this_lambda f)) = length ?raw + length names \<and>
          (\<forall>i < length names. lambda_layers (this_lambda f) ! (length ?raw + i) = ?arn (names ! i))"
    using ordered by (simp add: nth_append)
  have "distinct (map fst ?obj)"
    by (simp add: brefLayers_object_def)
  then show "\<forall>obj'. distinct (map fst obj') \<and> set obj' = set ?obj \<longrightarrow>
           (\<forall>k. js_in k obj' = js_in k ?obj \<and> js_get obj' k = js_get ?obj k)"
    using lookup_order_independent by blast
qed

theorem layers_preserve_requested_order_witness:
  "(0::nat) < next_ref \<lparr> arrays = (\<lambda>r. [])(0 := [Text ''fpm'', Text ''php'', Text ''fpm'']),
                          next_ref = 1 \<rparr> \<and>
   set [''fpm'', ''php'', ''fpm''] \<subseteq>
     set (map fst (brefLayers_object (or_default None functionDefaults_phpVersion))) \<and>
   lambda_layers (this_lambda (projr (fst (Function_constructor ''web'' ''../laravel''
     (Inr ''arn:role'') ''public/index.php'' None None (Some 0) None None None
     \<lparr> arrays = (\<lambda>r. [])(0 := [Text ''fpm'', Text ''php'', Text ''fpm'']), next_ref = 1 \<rparr>)))) =
   [Text ''arn:aws:lambda:us-east-1:534081306603:layer:php-82-fpm:68'',
    Text ''arn:aws:lambda:us-east-1:534081306603:layer:php-82:68'',
    Text ''arn:aws:lambda:us-east-1:534081306603:layer:php-82-fpm:68''] \<and>
   js_get (rev (brefLayers_object ''8.2'')) ''fpm'' = js_get (brefLayers_object ''8.2'') ''fpm''"
  using layers_preserve_requested_order
    [of 0 "\<lparr> arrays = (\<lambda>r. [])(0 := [Text ''fpm'', Text ''php'', Text ''fpm'']), next_ref = 1 \<rparr>"
        "[''fpm'', ''php'', ''fpm'']" None None "''web''" "''../laravel''" "Inr ''arn:role''"
        "''public/index.php''" None None None]
  by (simp add: Function_constructor_def for_of_brefLayers.simps Let_def or_default_def js_in_def
        js_get_def brefLayers_object_def Object_prototype_keys_def ensure_layers_def new_array_def
        push_def phpLayer_def consoleLayer_def fpmLayer_def functionDefaults_phpVersion_def)

text \<open>
  C10. For every call with a caller-supplied raw layers list and a non-empty list of
  bref layer names that are all keys of the registry, the layers of the resulting
  lambda are the raw layers followed by the identifiers the registry holds for the
  requested names, in that order: the resolved layers come after the raw ones, never
  before. This holds of every call that returns, and the constructor does return
  whenever the raw layers list and the list of names are two arrays.
\<close>

theorem raw_layers_then_bref_layers:
  assumes "names \<noteq> []"
    and "b < next_ref h"
    and "arrays h b = map Text names"
    and "set names \<subseteq> set (map fst (brefLayers_object (or_default pv functionDefaults_phpVersion)))"
  shows "(l \<noteq> b \<longrightarrow>
            (\<exists>f. fst (Function_constructor n c r hn e pv (Some b) (Some l) t m h) = Inr f \<and>
                 lambda_layers (this_lambda f) =
                   arrays h l @
                   map (js_get (brefLayers_object (or_default pv functionDefaults_phpVersion))) names \<and>
                 take (length (arrays h l)) (lambda_layers (this_lambda f)) = arrays h l)) \<and>
         (\<forall>f. fst (Function_constructor n c r hn e pv (Some b) (Some l) t m h) = Inr f \<longrightarrow>
            lambda_layers (this_lambda f) =
              arrays h l @
              map (js_get (brefLayers_object (or_default pv functionDefaults_phpVersion))) names) \<and>
         (\<forall>k \<in> set names. \<exists>arn.
            js_get (brefLayers_object (or_default pv functionDefaults_phpVersion)) k = Text arn \<and>
            (k, arn) \<in> set (brefLayers_object (or_default pv functionDefaults_phpVersion)))"
proof (intro conjI)
  let ?obj = "brefLayers_object (or_default pv functionDefaults_phpVersion)"
  let ?F = "fst (Function_constructor n c r hn e pv (Some b) (Some l) t m h)"
  have valid: "\<forall>v \<in> set (arrays h b). js_in (ToString v) ?obj"
    using assms(3,4) js_in_own by auto
  have resolved: "map (\<lambda>v. js_get ?obj (ToString v)) (arrays h b) = map (js_get ?obj) names"
    using assms(3) by simp
  have separate: "\<exists>f. ?F = Inr f \<and> lambda_layers (this_lambda f) = arrays h l @ map (js_get ?obj) names"
    if "l \<noteq> b"
    using Function_constructor_separate_arrays [of "Some l" b h pv n c r hn e t m] that assms(2)
      valid resolved
    by simp
  show "l \<noteq> b \<longrightarrow>
          (\<exists>f. ?F = Inr f \<and> lambda_layers (this_lambda f) = arrays h l @ map (js_get ?obj) names \<and>
               take (length (arrays h l)) (lambda_layers (this_lambda f)) = arrays h l)"
    using separate by auto
  have same: "isl ?F" if "l = b"
  proof -
    have "arrays h b \<noteq> []" using assms(1,3) by simp
    then show ?thesis
      using Function_constructor_same_array [OF refl _ valid, of n c r hn e t m] that by simp
  qed
  show "\<forall>f. ?F = Inr f \<longrightarrow> lambda_layers (this_lambda f) = arrays h l @ map (js_get ?obj) names"
    using separate same by (cases "l = b") auto
  show "\<forall>k \<in> set names. \<exists>arn. js_get ?obj k = Text arn \<and> (k, arn) \<in> set ?obj"
  proof
    fix k assume "k \<in> set names"
    then have "k \<in> {''php'', ''console'', ''fpm''}"
      using assms(4) brefLayers_object_keys by blast
    then show "\<exists>arn. js_get ?obj k = Text arn \<and> (k, arn) \<in> set ?obj"
      by (auto simp: js_get_def brefLayers_object_def)
  qed
qed

theorem raw_layers_then_bref_layers_witness:
  "[''console'', ''php''] \<noteq> [] \<and>
   set [''console'', ''php''] \<subseteq>
     set (map fst (brefLayers_object (or_default (Some ''8.3'') functionDefaults_phpVersion))) \<and>
   (1::nat) \<noteq> 0 \<and>
   lambda_layers (this_lambda (projr (fst (Function_constructor ''artisan'' ''../laravel''
     (Inr ''arn:role'') ''artisan'' None (Some ''8.3'') (Some 0) (Some 1) None None
     \<lparr> arrays = (\<lambda>r. [])(0 := [Text ''console'', Text ''php''],
                           1 := [Text ''arn:raw:1'', Text ''arn:raw:2'']),
       next_ref = 2 \<rparr>)))) =
   [Text ''arn:raw:1'', Text ''arn:raw:2'',
    Text ''arn:aws:lambda:us-east-1:534081306603:layer:console:78'',
    Text ''arn:aws:lambda:us-east-1:534081306603:layer:php-83:68'']"
  using raw_layers_then_bref_layers
    [of "[''console'', ''php'']" 0
        "\<lparr> arrays = (\<lambda>r. [])(0 := [Text ''console'', Text ''php''],
                              1 := [Text ''arn:raw:1'', Text ''arn:raw:2'']),
          next_ref = 2 \<rparr>"
        "Some ''8.3''" 1 "''artisan''" "''../laravel''" "Inr ''arn:role''" "''artisan''" None None None]
  by (simp add: Function_constructor_def for_of_brefLayers.simps Let_def or_default_def js_in_def
        js_get_def brefLayers_object_def Object_prototype_keys_def ensure_layers_def new_array_def
        push_def phpLayer_def consoleLayer_def fpmLayer_def)

section \<open>Timeout and memory size\<close>

text \<open>
  C7, as claimed: a timeout or memory size outside the platform's bounds makes the
  constructor fail. It does not: with a timeout of \<open>-1\<close> seconds and a memory size of
  \<open>0\<close>, the constructor returns and the lambda carries both values.
\<close>

theorem out_of_bounds_accepted_counterexample:
  "\<not> isl (fst (Function_constructor ''web'' ''../laravel'' (Inr ''arn:role'') ''public/index.php''
            None None None None (Some (- 1)) (Some 0) \<lparr> arrays = (\<lambda>r. []), next_ref = 0 \<rparr>)) \<and>
   lambda_timeout (this_lambda (projr (fst (Function_constructor ''web'' ''../laravel''
     (Inr ''arn:role'') ''public/index.php'' None None None None (Some (- 1)) (Some 0)
     \<lparr> arrays = (\<lambda>r. []), next_ref = 0 \<rparr>)))) = - 1 \<and>
   lambda_memorySize (this_lambda (projr (fst (Function_constructor ''web'' ''../laravel''
     (Inr ''arn:role'') ''public/index.php'' None None None None (Some (- 1)) (Some 0)
     \<lparr> arrays = (\<lambda>r. []), next_ref = 0 \<rparr>)))) = 0"
  by (simp add: Function_constructor_def for_of_brefLayers.simps Let_def or_default_def
        new_array_def)

text \<open>
  C7, amended. The constructor checks neither the timeout nor the memory size: whether
  it throws, which error it throws and what it leaves in the caller's arrays are the
  same for every timeout and memory size; whenever it returns, the lambda and the
  instance carry the timeout and the memory size it was given, or the defaults \<open>28\<close> and
  \<open>functionDefaults.memorySize\<close> when they are omitted; and with no bref layer names
  requested it returns for every timeout and memory size.
\<close>

theorem timeout_memorySize_passed_unchecked:
  "(fst (Function_constructor n c r hn e pv bl ls t m h) = Inl err \<longleftrightarrow>
    fst (Function_constructor n c r hn e pv bl ls t' m' h) = Inl err) \<and>
   snd (Function_constructor n c r hn e pv bl ls t m h) =
     snd (Function_constructor n c r hn e pv bl ls t' m' h) \<and>
   (\<forall>f. fst (Function_constructor n c r hn e pv bl ls t m h) = Inr f \<longrightarrow>
      lambda_timeout (this_lambda f) = or_default t 28 \<and>
      lambda_memorySize (this_lambda f) = or_default m functionDefaults_memorySize \<and>
      this_timeout f = or_default t 28 \<and>
      this_memorySize f = or_default m functionDefaults_memorySize) \<and>
   \<not> isl (fst (Function_constructor n c r hn e pv None ls t m h))"
proof (intro conjI allI impI)
  show "fst (Function_constructor n c r hn e pv bl ls t m h) = Inl err \<longleftrightarrow>
        fst (Function_constructor n c r hn e pv bl ls t' m' h) = Inl err"
    by (simp add: Function_constructor_def Let_def split: sum.splits)
  show "snd (Function_constructor n c r hn e pv bl ls t m h) =
        snd (Function_constructor n c r hn e pv bl ls t' m' h)"
    by (simp add: Function_constructor_def Let_def split: sum.splits)
  show "\<not> isl (fst (Function_constructor n c r hn e pv None ls t m h))"
    by (simp add: Function_constructor_no_brefLayers)
next
  fix f
  assume f: "fst (Function_constructor n c r hn e pv bl ls t m h) = Inr f"
  then show "lambda_timeout (this_lambda f) = or_default t 28"
    and "lambda_memorySize (this_lambda f) = or_default m functionDefaults_memorySize"
    and "this_timeout f = or_default t 28"
    and "this_memorySize f = or_default m functionDefaults_memorySize"
    by (auto simp: Function_constructor_def Let_def split: sum.splits)
qed

theorem timeout_memorySize_passed_unchecked_witness:
  "fst (Function_constructor ''web'' ''../laravel'' (Inr ''arn:role'') ''public/index.php'' None None
     (Some 0) None (Some 100000) (Some 64)
     \<lparr> arrays = (\<lambda>r. [])(0 := [Text ''php'']), next_ref = 1 \<rparr>) =
   Inr \<lparr> this_name = ''web'', this_roleArn = Inr ''arn:role'', this_handler = ''public/index.php'',
         this_environment = None, this_layers = Some 1,
         this_timeout = 100000, this_memorySize = 64, this_code = ''../laravel'',
         this_lambda =
           \<lparr> lambda_name = ''web'', lambda_code = ''../laravel'', lambda_role = Inr ''arn:role'',
             lambda_handler = ''public/index.php'', lambda_runtime = CustomAL2,
             lambda_architectures = [''x86_64''], lambda_environment = None,
             lambda_layers = [Text ''arn:aws:lambda:us-east-1:534081306603:layer:php-82:68''],
             lambda_timeout = 100000, lambda_memorySize = 64 \<rparr>,
         this_brefLayers =
           [(''php'', ''arn:aws:lambda:us-east-1:534081306603:layer:php-82:68''),
            (''console'', ''arn:aws:lambda:us-east-1:534081306603:layer:console:78''),
            (''fpm'', ''arn:aws:lambda:us-east-1:534081306603:layer:php-82-fpm:68'')] \<rparr> \<and>
   \<not> isl (fst (Function_constructor ''web'' ''../laravel'' (Inr ''arn:role'') ''public/index.php''
            None None (Some 0) None (Some (- 5)) None
            \<lparr> arrays = (\<lambda>r. [])(0 := [Text ''php'']), next_ref = 1 \<rparr>))"
  using timeout_memorySize_passed_unchecked
    [of "''web''" "''../laravel''" "Inr ''arn:role''" "''public/index.php''" None None
        "Some 0" None "Some 100000" "Some 64"
        "\<lparr> arrays = (\<lambda>r. [])(0 := [Text ''php'']), next_ref = 1 \<rparr>"]
  by (simp add: Function_constructor_def for_of_brefLayers.simps Let_def or_default_def js_in_def
        js_get_def brefLayers_object_def Object_prototype_keys_def ensure_layers_def new_array_def
        push_def phpLayer_def consoleLayer_def fpmLayer_def functionDefaults_phpVersion_def
        functionDefaults_architecture_def)

section \<open>Role\<close>

text \<open>
  C8, as claimed: the role receives the VPC policy if and only if the VPC exists. It
  does not: with \<open>useMySQL\<close> and \<open>useVPC\<close> false there is no VPC, and the policy named
  \<open>vpc\<close> is attached to the role.
\<close>

theorem vpc_policy_without_vpc_counterexample:
  "vpc \<lparr> useMySQL = Some False, useVPC = Some False, useOctane = None, useApiWarmer = None,
         useArtisanScheduler = None, apiWarmRate = None, artisanScheduleRate = None \<rparr> = None \<and>
   ''vpc'' \<in> set (map fst (role_policies lambdaRole))"
  by (simp add: vpc_def truthy_def lambdaRole_def addPolicy_def new_LambdaRole_def)

text \<open>
  C8, amended. The role receives the object-storage policy attachment \<open>s3\<close> and the
  network-attachment policy attachment \<open>vpc\<close>, in that order, in every configuration,
  whether the VPC exists or not: the role does not depend on the configuration.
\<close>

theorem lambdaRole_policies_unconditional:
  "role_policies lambdaRole = [(''s3'', S3BucketPolicy bucket), (''vpc'', VpcPolicy)]"
  by (simp add: lambdaRole_def addPolicy_def new_LambdaRole_def)

section \<open>Environment of the compute units\<close>

text \<open>
  The web unit's environment is the global environment with the one entry
  \<open>BREF_LOOP_MAX = 250\<close> added: the two operands of the merge share no key, and every
  key of the global environment keeps its value.
\<close>

lemma webApp_environment_entries:
  "webApp_environment (environment config provider) =
     (environment config provider)(''BREF_LOOP_MAX'' \<mapsto> Plain (Num 250)) \<and>
   dom [''BREF_LOOP_MAX'' \<mapsto> Plain (Num 250)] \<inter> dom (environment config provider) = {} \<and>
   (\<forall>k \<in> dom (environment config provider).
      webApp_environment (environment config provider) k = environment config provider k)"
  by (auto simp: webApp_environment_def spread_def map_add_def environment_def
           split: option.splits)

text \<open>
  Once the network configuration has resolved, the three units are built: the web unit
  with the merged environment, the console and the worker units with the global
  environment as it is.
\<close>

lemma compute_units_environments:
  assumes "lambdaVpcConfig config provider = Inr vpcConfig"
  shows "webApp config provider =
           Inr (WebApp ''laravel-test'' ''../laravel'' lambdaRole
                  ((environment config provider)(''BREF_LOOP_MAX'' \<mapsto> Plain (Num 250)))
                  (useOctane config) (subnetIds vpcConfig) (securityGroupIds vpcConfig))"
    and "consoleApp config provider =
           Inr (ConsoleApp ''laravel-test-artisan'' ''../laravel'' lambdaRole
                  (environment config provider) (subnetIds vpcConfig) (securityGroupIds vpcConfig))"
    and "sqsWorker config provider =
           Inr (SqsWorker ''laravel-test-worker'' ''../laravel'' lambdaRole
                  (environment config provider) (subnetIds vpcConfig) (securityGroupIds vpcConfig))"
  using assms webApp_environment_entries [of config provider]
  by (simp_all add: webApp_def consoleApp_def sqsWorker_def apply_Output_def)

section \<open>Credentials\<close>

text \<open>
  C5, as claimed: with \<open>useMySQL\<close> set and an empty secret payload the composition
  fails. The credentials lookup does fail, but the composition goes on: the three
  compute units are built, the web unit with the failed lookup as its \<open>DB_USERNAME\<close>,
  and the module reaches its exports.
\<close>

theorem empty_secret_units_built_counterexample:
  "credentials
     \<lparr> useMySQL = Some True, useVPC = None, useOctane = None, useApiWarmer = None,
       useArtisanScheduler = None, apiWarmRate = None, artisanScheduleRate = None \<rparr>
     \<lparr> bucket_bucket = Inr ''bref-example-bucket-1a2b3c'',
       vpc_publicSubnetIds = Inr [''subnet-1'', ''subnet-2''],
       vpc_vpcId = Inr ''vpc-1'',
       securityGroup_id = Inr ''sg-1'',
       auroraCluster_endpoint = Inr ''db.example.internal'',
       auroraCluster_secretArn = Inr ''arn:secret'',
       auroraCluster_id = Inr ''laravel-test-aurora-1'',
       getSecretVersion = (\<lambda>secretId. Inr \<lparr> secretString = '''' \<rparr>),
       JSON_parse = (\<lambda>s. Inl (SyntaxError ''Unexpected end of JSON input'')) \<rparr>
     = Some (Inl (Error ''Secret string is empty'')) \<and>
   \<not> isl (webApp
     \<lparr> useMySQL = Some True, useVPC = None, useOctane = None, useApiWarmer = None,
       useArtisanScheduler = None, apiWarmRate = None, artisanScheduleRate = None \<rparr>
     \<lparr> bucket_bucket = Inr ''bref-example-bucket-1a2b3c'',
       vpc_publicSubnetIds = Inr [''subnet-1'', ''subnet-2''],
       vpc_vpcId = Inr ''vpc-1'',
       securityGroup_id = Inr ''sg-1'',
       auroraCluster_endpoint = Inr ''db.example.internal'',
       auroraCluster_secretArn = Inr ''arn:secret'',
       auroraCluster_id = Inr ''laravel-test-aurora-1'',
       getSecretVersion = (\<lambda>secretId. Inr \<lparr> secretString = '''' \<rparr>),
       JSON_parse = (\<lambda>s. Inl (SyntaxError ''Unexpected end of JSON input'')) \<rparr>) \<and>
   \<not> isl (consoleApp
     \<lparr> useMySQL = Some True, useVPC = None, useOctane = None, useApiWarmer = None,
       useArtisanScheduler = None, apiWarmRate = None, artisanScheduleRate = None \<rparr>
     \<lparr> bucket_bucket = Inr ''bref-example-bucket-1a2b3c'',
       vpc_publicSubnetIds = Inr [''subnet-1'', ''subnet-2''],
       vpc_vpcId = Inr ''vpc-1'',
       securityGroup_id = Inr ''sg-1'',
       auroraCluster_endpoint = Inr ''db.example.internal'',
       auroraCluster_secretArn = Inr ''arn:secret'',
       auroraCluster_id = Inr ''laravel-test-aurora-1'',
       getSecretVersion = (\<lambda>secretId. Inr \<lparr> secretString = '''' \<rparr>),
       JSON_parse = (\<lambda>s. Inl (SyntaxError ''Unexpected end of JSON input'')) \<rparr>) \<and>
   \<not> isl (sqsWorker
     \<lparr> useMySQL = Some True, useVPC = None, useOctane = None, useApiWarmer = None,
       useArtisanScheduler = None, apiWarmRate = None, artisanScheduleRate = None \<rparr>
     \<lparr> bucket_bucket = Inr ''bref-example-bucket-1a2b3c'',
       vpc_publicSubnetIds = Inr [''subnet-1'', ''subnet-2''],
       vpc_vpcId = Inr ''vpc-1'',
       securityGroup_id = Inr ''sg-1'',
       auroraCluster_endpoint = Inr ''db.example.internal'',
       auroraCluster_secretArn = Inr ''arn:secret'',
       auroraCluster_id = Inr ''laravel-test-aurora-1'',
       getSecretVersion = (\<lambda>secretId. Inr \<lparr> secretString = '''' \<rparr>),
       JSON_parse = (\<lambda>s. Inl (SyntaxError ''Unexpected end of JSON input'')) \<rparr>) \<and>
   web_environment (projr (webApp
     \<lparr> useMySQL = Some True, useVPC = None, useOctane = None, useApiWarmer = None,
       useArtisanScheduler = None, apiWarmRate = None, artisanScheduleRate = None \<rparr>
     \<lparr> bucket_bucket = Inr ''bref-example-bucket-1a2b3c'',
       vpc_publicSubnetIds = Inr [''subnet-1'', ''subnet-2''],
       vpc_vpcId = Inr ''vpc-1'',
       securityGroup_id = Inr ''sg-1'',
       auroraCluster_endpoint = Inr ''db.example.internal'',
       auroraCluster_secretArn = Inr ''arn:secret'',
       auroraCluster_id = Inr ''laravel-test-aurora-1'',
       getSecretVersion = (\<lambda>secretId. Inr \<lparr> secretString = '''' \<rparr>),
       JSON_parse = (\<lambda>s. Inl (SyntaxError ''Unexpected end of JSON input'')) \<rparr>)) ''DB_USERNAME''
     = Some (Deferred (Inl (Error ''Secret string is empty''))) \<and>
   vpcId
     \<lparr> useMySQL = Some True, useVPC = None, useOctane = None, useApiWarmer = None,
       useArtisanScheduler = None, apiWarmRate = None, artisanScheduleRate = None \<rparr>
     \<lparr> bucket_bucket = Inr ''bref-example-bucket-1a2b3c'',
       vpc_publicSubnetIds = Inr [''subnet-1'', ''subnet-2''],
       vpc_vpcId = Inr ''vpc-1'',
       securityGroup_id = Inr ''sg-1'',
       auroraCluster_endpoint = Inr ''db.example.internal'',
       auroraCluster_secretArn = Inr ''arn:secret'',
       auroraCluster_id = Inr ''laravel-test-aurora-1'',
       getSecretVersion = (\<lambda>secretId. Inr \<lparr> secretString = '''' \<rparr>),
       JSON_parse = (\<lambda>s. Inl (SyntaxError ''Unexpected end of JSON input'')) \<rparr>
     = Inr (Deferred (Inr (Str ''vpc-1'')))"
  by (simp add: credentials_def vpc_def truthy_def auroraSecret_def apply_Output_def
        all_Output_def extract_credentials_def webApp_def consoleApp_def sqsWorker_def
        lambdaVpcConfig_def webApp_environment_def spread_def environment_def vpcId_def
        scheduled_triggers_def apiWarmer_def artisanScheduler_def output_string_def)

text \<open>
  C5, amended. When \<open>useMySQL\<close> is set and the secret's payload is the empty string,
  the credentials lookup fails with the error "Secret string is empty": the credentials
  are that failure and never a username and password, and \<open>DB_USERNAME\<close> and
  \<open>DB_PASSWORD\<close> are that failure too, not the empty string. The composition does not
  stop there: when the subnets and the security group resolve and no scheduled trigger
  is requested, the three compute units are built, each with that failure as its
  \<open>DB_USERNAME\<close> and \<open>DB_PASSWORD\<close>, and the module reaches its exports.
\<close>

theorem empty_secret_fails_credentials:
  assumes "useMySQL config = Some True"
    and "auroraCluster_secretArn provider = Inr arn"
    and "getSecretVersion provider arn = Inr secret"
    and "secretString secret = ''''"
  shows "credentials config provider = Some (Inl (Error ''Secret string is empty'')) \<and>
         environment config provider ''DB_USERNAME'' =
           Some (Deferred (Inl (Error ''Secret string is empty''))) \<and>
         environment config provider ''DB_PASSWORD'' =
           Some (Deferred (Inl (Error ''Secret string is empty''))) \<and>
         environment config provider ''DB_USERNAME'' \<noteq> Some (Plain (Str '''')) \<and>
         environment config provider ''DB_PASSWORD'' \<noteq> Some (Plain (Str '''')) \<and>
         (\<forall>ids sg.
            vpc_publicSubnetIds provider = Inr ids \<and> securityGroup_id provider = Inr sg \<and>
            useApiWarmer config \<noteq> Some True \<and> useArtisanScheduler config \<noteq> Some True \<longrightarrow>
            (\<exists>w. webApp config provider = Inr w \<and>
                 web_environment w ''DB_USERNAME'' =
                   Some (Deferred (Inl (Error ''Secret string is empty''))) \<and>
                 web_environment w ''DB_PASSWORD'' =
                   Some (Deferred (Inl (Error ''Secret string is empty'')))) \<and>
            (\<exists>a. consoleApp config provider = Inr a \<and>
                 console_environment a ''DB_USERNAME'' =
                   Some (Deferred (Inl (Error ''Secret string is empty''))) \<and>
                 console_environment a ''DB_PASSWORD'' =
                   Some (Deferred (Inl (Error ''Secret string is empty'')))) \<and>
            (\<exists>q. sqsWorker config provider = Inr q \<and>
                 worker_environment q ''DB_USERNAME'' =
                   Some (Deferred (Inl (Error ''Secret string is empty''))) \<and>
                 worker_environment q ''DB_PASSWORD'' =
                   Some (Deferred (Inl (Error ''Secret string is empty'')))) \<and>
            \<not> isl (vpcId config provider) \<and>
            \<not> isl (auroraClusterId config provider) \<and>
            \<not> isl (auroraClusterEndpoint config provider))"
proof -
  let ?E = "Error ''Secret string is empty''"
  have c: "credentials config provider = Some (Inl ?E)"
    using assms
    by (simp add: credentials_def vpc_def truthy_def auroraSecret_def apply_Output_def
          extract_credentials_def)
  have u: "environment config provider ''DB_USERNAME'' = Some (Deferred (Inl ?E))"
    and p: "environment config provider ''DB_PASSWORD'' = Some (Deferred (Inl ?E))"
    by (simp_all add: c environment_def apply_Output_def)
  have units: "(\<exists>w. webApp config provider = Inr w \<and>
                 web_environment w ''DB_USERNAME'' = Some (Deferred (Inl ?E)) \<and>
                 web_environment w ''DB_PASSWORD'' = Some (Deferred (Inl ?E))) \<and>
            (\<exists>a. consoleApp config provider = Inr a \<and>
                 console_environment a ''DB_USERNAME'' = Some (Deferred (Inl ?E)) \<and>
                 console_environment a ''DB_PASSWORD'' = Some (Deferred (Inl ?E))) \<and>
            (\<exists>q. sqsWorker config provider = Inr q \<and>
                 worker_environment q ''DB_USERNAME'' = Some (Deferred (Inl ?E)) \<and>
                 worker_environment q ''DB_PASSWORD'' = Some (Deferred (Inl ?E)))"
    if "vpc_publicSubnetIds provider = Inr ids" and "securityGroup_id provider = Inr sg"
    for ids sg
  proof -
    have "lambdaVpcConfig config provider = Inr \<lparr> subnetIds = ids, securityGroupIds = [sg] \<rparr>"
      using that assms(1)
      by (simp add: lambdaVpcConfig_def vpc_def truthy_def apply_Output_def all_Output_def)
    from compute_units_environments [OF this] show ?thesis
      using u p by simp
  qed
  have exports: "\<not> isl (vpcId config provider) \<and> \<not> isl (auroraClusterId config provider) \<and>
                 \<not> isl (auroraClusterEndpoint config provider)"
    if "useApiWarmer config \<noteq> Some True" and "useArtisanScheduler config \<noteq> Some True"
    using that
    by (simp add: vpcId_def auroraClusterId_def auroraClusterEndpoint_def scheduled_triggers_def
          apiWarmer_def artisanScheduler_def truthy_def)
  show ?thesis
    using c u p units exports by simp
qed

theorem empty_secret_fails_credentials_witness:
  "credentials
     \<lparr> useMySQL = Some True, useVPC = None, useOctane = Some True, useApiWarmer = Some False,
       useArtisanScheduler = None, apiWarmRate = None, artisanScheduleRate = None \<rparr>
     \<lparr> bucket_bucket = Inr ''bref-example-bucket-1a2b3c'',
       vpc_publicSubnetIds = Inr [''subnet-a''],
       vpc_vpcId = Inr ''vpc-2'',
       securityGroup_id = Inr ''sg-2'',
       auroraCluster_endpoint = Inr ''db.example.internal'',
       auroraCluster_secretArn = Inr ''arn:secret'',
       auroraCluster_id = Inr ''laravel-test-aurora-2'',
       getSecretVersion = (\<lambda>secretId. Inr \<lparr> secretString = '''' \<rparr>),
       JSON_parse = (\<lambda>s. Inl (SyntaxError ''Unexpected end of JSON input'')) \<rparr>
   = Some (Inl (Error ''Secret string is empty'')) \<and>
   console_environment (projr (consoleApp
     \<lparr> useMySQL = Some True, useVPC = None, useOctane = Some True, useApiWarmer = Some False,
       useArtisanScheduler = None, apiWarmRate = None, artisanScheduleRate = None \<rparr>
     \<lparr> bucket_bucket = Inr ''bref-example-bucket-1a2b3c'',
       vpc_publicSubnetIds = Inr [''subnet-a''],
       vpc_vpcId = Inr ''vpc-2'',
       securityGroup_id = Inr ''sg-2'',
       auroraCluster_endpoint = Inr ''db.example.internal'',
       auroraCluster_secretArn = Inr ''arn:secret'',
       auroraCluster_id = Inr ''laravel-test-aurora-2'',
       getSecretVersion = (\<lambda>secretId. Inr \<lparr> secretString = '''' \<rparr>),
       JSON_parse = (\<lambda>s. Inl (SyntaxError ''Unexpected end of JSON input'')) \<rparr>)) ''DB_PASSWORD''
   = Some (Deferred (Inl (Error ''Secret string is empty'')))"
  using empty_secret_fails_credentials
    [of "\<lparr> useMySQL = Some True, useVPC = None, useOctane = Some True, useApiWarmer = Some False,
          useArtisanScheduler = None, apiWarmRate = None, artisanScheduleRate = None \<rparr>"
        "\<lparr> bucket_bucket = Inr ''bref-example-bucket-1a2b3c'',
          vpc_publicSubnetIds = Inr [''subnet-a''],
          vpc_vpcId = Inr ''vpc-2'',
          securityGroup_id = Inr ''sg-2'',
          auroraCluster_endpoint = Inr ''db.example.internal'',
          auroraCluster_secretArn = Inr ''arn:secret'',
          auroraCluster_id = Inr ''laravel-test-aurora-2'',
          getSecretVersion = (\<lambda>secretId. Inr \<lparr> secretString = '''' \<rparr>),
          JSON_parse = (\<lambda>s. Inl (SyntaxError ''Unexpected end of JSON input'')) \<rparr>"
        "''arn:secret''" "\<lparr> secretString = '''' \<rparr>"]
  by (simp add: consoleApp_def lambdaVpcConfig_def vpc_def truthy_def apply_Output_def
        all_Output_def)

section \<open>Exports\<close>

text \<open>
  With neither network nor database, and no scheduled trigger requested, the module
  runs to its exports, and the three database fields of the environment and the three
  exports are the empty string.
\<close>

lemma placeholders_without_triggers:
  assumes "useMySQL config \<noteq> Some True" and "useVPC config \<noteq> Some True"
    and "useApiWarmer config \<noteq> Some True" and "useArtisanScheduler config \<noteq> Some True"
  shows "environment config provider ''DB_HOST'' = Some (Plain (Str '''')) \<and>
         environment config provider ''DB_USERNAME'' = Some (Plain (Str '''')) \<and>
         environment config provider ''DB_PASSWORD'' = Some (Plain (Str '''')) \<and>
         vpcId config provider = Inr (Plain (Str '''')) \<and>
         auroraClusterId config provider = Inr (Plain (Str '''')) \<and>
         auroraClusterEndpoint config provider = Inr (Plain (Str ''''))"
  using assms
  by (simp add: environment_def vpcId_def auroraClusterId_def auroraClusterEndpoint_def
        auroraCluster_def credentials_def vpc_def truthy_def scheduled_triggers_def
        apiWarmer_def artisanScheduler_def)

text \<open>
  C9. The claim is that with \<open>useMySQL\<close> and \<open>useVPC\<close> false the database fields of the
  environment and the exports \<open>vpcId\<close>, \<open>auroraClusterId\<close> and \<open>auroraClusterEndpoint\<close>
  are the empty string, present and not omitted. With \<open>useApiWarmer\<close> set as well,
  neither network nor database is created and the environment fields are the empty
  string, but the module throws on the undeclared \<open>stackName\<close> before it reaches its
  exports: none of the three is evaluated.
\<close>

theorem exports_not_evaluated_with_useApiWarmer:
  "vpc \<lparr> useMySQL = Some False, useVPC = Some False, useOctane = None,
         useApiWarmer = Some True, useArtisanScheduler = None, apiWarmRate = None,
         artisanScheduleRate = None \<rparr> = None \<and>
   auroraCluster \<lparr> useMySQL = Some False, useVPC = Some False, useOctane = None,
         useApiWarmer = Some True, useArtisanScheduler = None, apiWarmRate = None,
         artisanScheduleRate = None \<rparr> = None \<and>
   environment
     \<lparr> useMySQL = Some False, useVPC = Some False, useOctane = None,
       useApiWarmer = Some True, useArtisanScheduler = None, apiWarmRate = None,
       artisanScheduleRate = None \<rparr>
     \<lparr> bucket_bucket = Inr ''bref-example-bucket-1a2b3c'',
       vpc_publicSubnetIds = Inr [],
       vpc_vpcId = Inr ''vpc-1'',
       securityGroup_id = Inr ''sg-1'',
       auroraCluster_endpoint = Inr ''db.example.internal'',
       auroraCluster_secretArn = Inr ''arn:secret'',
       auroraCluster_id = Inr ''laravel-test-aurora-1'',
       getSecretVersion = (\<lambda>secretId. Inl (Error ''not found'')),
       JSON_parse = (\<lambda>s. Inl (SyntaxError ''Unexpected end of JSON input'')) \<rparr> ''DB_HOST''
     = Some (Plain (Str '''')) \<and>
   vpcId
     \<lparr> useMySQL = Some False, useVPC = Some False, useOctane = None,
       useApiWarmer = Some True, useArtisanScheduler = None, apiWarmRate = None,
       artisanScheduleRate = None \<rparr>
     \<lparr> bucket_bucket = Inr ''bref-example-bucket-1a2b3c'',
       vpc_publicSubnetIds = Inr [],
       vpc_vpcId = Inr ''vpc-1'',
       securityGroup_id = Inr ''sg-1'',
       auroraCluster_endpoint = Inr ''db.example.internal'',
       auroraCluster_secretArn = Inr ''arn:secret'',
       auroraCluster_id = Inr ''laravel-test-aurora-1'',
       getSecretVersion = (\<lambda>secretId. Inl (Error ''not found'')),
       JSON_parse = (\<lambda>s. Inl (SyntaxError ''Unexpected end of JSON input'')) \<rparr>
     = Inl (ReferenceError ''stackName is not defined'') \<and>
   auroraClusterId
     \<lparr> useMySQL = Some False, useVPC = Some False, useOctane = None,
       useApiWarmer = Some True, useArtisanScheduler = None, apiWarmRate = None,
       artisanScheduleRate = None \<rparr>
     \<lparr> bucket_bucket = Inr ''bref-example-bucket-1a2b3c'',
       vpc_publicSubnetIds = Inr [],
       vpc_vpcId = Inr ''vpc-1'',
       securityGroup_id = Inr ''sg-1'',
       auroraCluster_endpoint = Inr ''db.example.internal'',
       auroraCluster_secretArn = Inr ''arn:secret'',
       auroraCluster_id = Inr ''laravel-test-aurora-1'',
       getSecretVersion = (\<lambda>secretId. Inl (Error ''not found'')),
       JSON_parse = (\<lambda>s. Inl (SyntaxError ''Unexpected end of JSON input'')) \<rparr>
     = Inl (ReferenceError ''stackName is not defined'') \<and>
   auroraClusterEndpoint
     \<lparr> useMySQL = Some False, useVPC = Some False, useOctane = None,
       useApiWarmer = Some True, useArtisanScheduler = None, apiWarmRate = None,
       artisanScheduleRate = None \<rparr>
     \<lparr> bucket_bucket = Inr ''bref-example-bucket-1a2b3c'',
       vpc_publicSubnetIds = Inr [],
       vpc_vpcId = Inr ''vpc-1'',
       securityGroup_id = Inr ''sg-1'',
       auroraCluster_endpoint = Inr ''db.example.internal'',
       auroraCluster_secretArn = Inr ''arn:secret'',
       auroraCluster_id = Inr ''laravel-test-aurora-1'',
       getSecretVersion = (\<lambda>secretId. Inl (Error ''not found'')),
       JSON_parse = (\<lambda>s. Inl (SyntaxError ''Unexpected end of JSON input'')) \<rparr>
     = Inl (ReferenceError ''stackName is not defined'')"
  by (simp add: vpcId_def auroraClusterId_def auroraClusterEndpoint_def scheduled_triggers_def
        apiWarmer_def stackName_def truthy_def vpc_def auroraCluster_def environment_def)

end
